theory Spec2Isabelle
  imports Complex_Main
begin

section \<open>JavaScript values used by the recipe cost calculator\<close>

text \<open>
  The module \<^verbatim>\<open>shared/recipeCostCalculator.ts\<close> works on JavaScript strings and numbers.

  A string is the list of its UTF-16 code units. ASCII literals are written through
  \<open>js\<close>; the vulgar fraction glyphs are given by their code units.

  A value of type \<^verbatim>\<open>number\<close> is \<open>NaN\<close>, an infinity or a finite value. Finite values are
  exact reals: the rounding of binary64 arithmetic, with its overflow to an infinity and
  underflow to zero, is not part of the model. The two zeros are one: the code divides
  by a value that may be zero only where that value is read from a string of digits, and
  compares the purchase quantity with 0 before it divides by it. A statement that depends
  on a computed value says how it reads in binary64.

  The lookup tables of the module are plain object literals, and the code reads them with
  \<^verbatim>\<open>table[key]\<close>. Such a read finds the properties of the literal and also those inherited
  from \<^verbatim>\<open>Object.prototype\<close>, so a position of type \<^verbatim>\<open>number\<close> can hold a function, an object
  or a string at run time. \<open>NonNumber\<close> stands for such a value: it is truthy, it is not
  \<^verbatim>\<open>null\<close>, it differs from every number, and arithmetic converts it to \<open>NaN\<close>.
\<close>

type_synonym jsstring = "nat list"

definition js :: "string \<Rightarrow> jsstring" where
  "js s = map of_char s"

datatype number = NaN | Fin real | PosInfinity | NegInfinity | NonNumber

text \<open>The global \<^verbatim>\<open>isNaN\<close> converts its argument to a number first.\<close>

definition isNaN :: "number \<Rightarrow> bool" where
  "isNaN n = (case n of NaN \<Rightarrow> True | NonNumber \<Rightarrow> True | _ \<Rightarrow> False)"

text \<open>The sign of a number that is not \<open>NaN\<close>, as a real in \<open>{-1, 0, 1}\<close>.\<close>

fun sign_of :: "number \<Rightarrow> real" where
  "sign_of (Fin x) = sgn x"
| "sign_of PosInfinity = 1"
| "sign_of NegInfinity = - 1"
| "sign_of NaN = 0"
| "sign_of NonNumber = 0"

definition signed_infinity :: "real \<Rightarrow> number" where
  "signed_infinity s = (if 0 < s then PosInfinity else if s < 0 then NegInfinity else NaN)"

fun num_neg :: "number \<Rightarrow> number" where
  "num_neg NaN = NaN"
| "num_neg (Fin x) = Fin (- x)"
| "num_neg PosInfinity = NegInfinity"
| "num_neg NegInfinity = PosInfinity"
| "num_neg NonNumber = NaN"

text \<open>
  \<^verbatim>\<open>a + b\<close>. With a function, an object or a string as operand it concatenates strings,
  and the result is a string.
\<close>

fun num_add :: "number \<Rightarrow> number \<Rightarrow> number" where
  "num_add NonNumber b = NonNumber"
| "num_add a NonNumber = NonNumber"
| "num_add NaN b = NaN"
| "num_add a NaN = NaN"
| "num_add (Fin x) (Fin y) = Fin (x + y)"
| "num_add (Fin x) b = b"
| "num_add a (Fin y) = a"
| "num_add PosInfinity PosInfinity = PosInfinity"
| "num_add NegInfinity NegInfinity = NegInfinity"
| "num_add PosInfinity NegInfinity = NaN"
| "num_add NegInfinity PosInfinity = NaN"

text \<open>\<^verbatim>\<open>a * b\<close>: an infinity times zero is \<open>NaN\<close>.\<close>

fun num_mul :: "number \<Rightarrow> number \<Rightarrow> number" where
  "num_mul NonNumber b = NaN"
| "num_mul a NonNumber = NaN"
| "num_mul NaN b = NaN"
| "num_mul a NaN = NaN"
| "num_mul (Fin x) (Fin y) = Fin (x * y)"
| "num_mul a b = signed_infinity (sign_of a * sign_of b)"

text \<open>
  \<^verbatim>\<open>a / b\<close>: a finite non-zero value divided by zero is an infinity, zero divided by zero
  and an infinity divided by an infinity are \<open>NaN\<close>.
\<close>

fun num_div :: "number \<Rightarrow> number \<Rightarrow> number" where
  "num_div NonNumber b = NaN"
| "num_div a NonNumber = NaN"
| "num_div NaN b = NaN"
| "num_div a NaN = NaN"
| "num_div (Fin x) (Fin y) = (if y = 0 then signed_infinity x else Fin (x / y))"
| "num_div (Fin x) b = Fin 0"
| "num_div a (Fin y) = signed_infinity (sign_of a * (if y < 0 then - 1 else 1))"
| "num_div a b = NaN"

subsection \<open>Strings\<close>

text \<open>
  \<^verbatim>\<open>String.prototype.trim\<close>, the \<^verbatim>\<open>\s\<close> class of a regular expression and the leading
  blanks skipped by \<^verbatim>\<open>parseFloat\<close> all use the white space and line terminator code
  points of ECMAScript.
\<close>

definition isWhiteSpace :: "nat \<Rightarrow> bool" where
  "isWhiteSpace c =
     (c \<in> set [9, 10, 11, 12, 13, 32, 160, 5760, 8232, 8233, 8239, 8287, 12288, 65279]
      \<or> (8192 \<le> c \<and> c \<le> 8202))"

definition trim :: "jsstring \<Rightarrow> jsstring" where
  "trim s = rev (dropWhile isWhiteSpace (rev (dropWhile isWhiteSpace s)))"

text \<open>
  \<^verbatim>\<open>String.prototype.toLowerCase\<close>, on the ASCII letters. The case mappings of Unicode
  beyond ASCII are not embedded: other code units are left as they are, so the model
  differs from the code on strings with a cased letter outside ASCII (the Kelvin sign
  U+212A becomes \<^verbatim>\<open>k\<close> in the code).
\<close>

definition toLowerCaseUnit :: "nat \<Rightarrow> nat" where
  "toLowerCaseUnit c = (if 65 \<le> c \<and> c \<le> 90 then c + 32 else c)"

definition toLowerCase :: "jsstring \<Rightarrow> jsstring" where
  "toLowerCase s = map toLowerCaseUnit s"

definition isDigit :: "nat \<Rightarrow> bool" where
  "isDigit c = (48 \<le> c \<and> c \<le> 57)"

text \<open>The value of a string of decimal digits; the empty string counts 0.\<close>

definition digitsValue :: "jsstring \<Rightarrow> nat" where
  "digitsValue ds = foldl (\<lambda>acc d. 10 * acc + (d - 48)) 0 ds"

subsection \<open>\<^verbatim>\<open>parseFloat\<close>\<close>

text \<open>
  \<^verbatim>\<open>parseFloat\<close> skips leading white space and reads the longest prefix that is a decimal
  literal: an optional sign, then \<^verbatim>\<open>Infinity\<close> or digits with an optional fraction and an
  optional exponent. What follows the prefix is ignored; with no such prefix the result is
  \<open>NaN\<close>.
\<close>

text \<open>The exponent part at the head of a string: \<^verbatim>\<open>e\<close> or \<^verbatim>\<open>E\<close>, an optional sign, digits.\<close>

definition exponentPart :: "jsstring \<Rightarrow> int" where
  "exponentPart s =
     (case s of
        [] \<Rightarrow> 0
      | c # r \<Rightarrow>
          if c = 101 \<or> c = 69 then
            (case r of
               [] \<Rightarrow> 0
             | d # r' \<Rightarrow>
                 if d = 43 then
                   (if takeWhile isDigit r' = [] then 0
                    else int (digitsValue (takeWhile isDigit r')))
                 else if d = 45 then
                   (if takeWhile isDigit r' = [] then 0
                    else - int (digitsValue (takeWhile isDigit r')))
                 else if takeWhile isDigit r = [] then 0
                 else int (digitsValue (takeWhile isDigit r)))
          else 0)"

definition scale10 :: "real \<Rightarrow> int \<Rightarrow> real" where
  "scale10 x e = (if 0 \<le> e then x * 10 ^ nat e else x / 10 ^ nat (- e))"

definition parseUnsigned :: "jsstring \<Rightarrow> number" where
  "parseUnsigned s =
     (if take 8 s = js ''Infinity'' then PosInfinity
      else
        let ip = takeWhile isDigit s; r1 = dropWhile isDigit s in
        (case r1 of
           [] \<Rightarrow> if ip = [] then NaN else Fin (real (digitsValue ip))
         | c # r2 \<Rightarrow>
             if c = 46 then
               (let fp = takeWhile isDigit r2; r3 = dropWhile isDigit r2 in
                if ip = [] \<and> fp = [] then NaN
                else Fin (scale10
                       (real (digitsValue ip) + real (digitsValue fp) / 10 ^ length fp)
                       (exponentPart r3)))
             else if ip = [] then NaN
             else Fin (scale10 (real (digitsValue ip)) (exponentPart r1))))"

definition parseFloat :: "jsstring \<Rightarrow> number" where
  "parseFloat s =
     (case dropWhile isWhiteSpace s of
        [] \<Rightarrow> NaN
      | c # r \<Rightarrow>
          if c = 43 then parseUnsigned r
          else if c = 45 then num_neg (parseUnsigned r)
          else parseUnsigned (c # r))"

section \<open>Unit resolver\<close>

text \<open>\<^verbatim>\<open>UNIT_ALIASES\<close>: each canonical unit with its accepted spellings, in source order.\<close>

definition UNIT_ALIASES :: "(jsstring \<times> jsstring list) list" where
  "UNIT_ALIASES =
     [(js ''g'', [js ''g'', js ''gr'', js ''gram'', js ''grams'', js ''gm'']),
      (js ''kg'', [js ''kg'', js ''kilo'', js ''kilogram'', js ''kilograms'']),
      (js ''ml'', [js ''ml'', js ''milliliter'', js ''millilitre'', js ''milliliters'',
                   js ''millilitres'']),
      (js ''l'', [js ''l'', js ''liter'', js ''litre'', js ''liters'', js ''litres'']),
      (js ''unit'', [js ''unit'', js ''units'', js ''ea'', js ''each'', js ''piece'',
                     js ''pieces'', js ''pc'', js ''pcs'']),
      (js ''cup'', [js ''cup'', js ''cups'', js ''c'']),
      (js ''tbsp'', [js ''tbsp'', js ''tablespoon'', js ''tablespoons'', js ''tbs'']),
      (js ''tsp'', [js ''tsp'', js ''teaspoon'', js ''teaspoons'']),
      (js ''oz'', [js ''oz'', js ''ounce'', js ''ounces'']),
      (js ''lb'', [js ''lb'', js ''lbs'', js ''pound'', js ''pounds'']),
      (js ''bunch'', [js ''bunch'', js ''bunches'']),
      (js ''head'', [js ''head'', js ''heads'']),
      (js ''clove'', [js ''clove'', js ''cloves'']),
      (js ''can'', [js ''can'', js ''cans'', js ''tin'', js ''tins'']),
      (js ''bottle'', [js ''bottle'', js ''bottles'']),
      (js ''jar'', [js ''jar'', js ''jars'']),
      (js ''pack'', [js ''pack'', js ''packs'', js ''packet'', js ''packets'']),
      (js ''box'', [js ''box'', js ''boxes'']),
      (js ''bag'', [js ''bag'', js ''bags'']),
      (js ''slice'', [js ''slice'', js ''slices''])]"

text \<open>\<^verbatim>\<open>STANDARD_CONVERSIONS\<close>: for a unit, the factors to other units.\<close>

definition STANDARD_CONVERSIONS :: "(jsstring \<times> (jsstring \<times> real) list) list" where
  "STANDARD_CONVERSIONS =
     [(js ''g'', [(js ''kg'', 0.001), (js ''oz'', 0.03527)]),
      (js ''kg'', [(js ''g'', 1000), (js ''lb'', 2.20462)]),
      (js ''ml'', [(js ''l'', 0.001), (js ''cup'', 0.00423)]),
      (js ''l'', [(js ''ml'', 1000), (js ''cup'', 4.227)]),
      (js ''oz'', [(js ''g'', 28.3495), (js ''lb'', 0.0625)]),
      (js ''lb'', [(js ''oz'', 16), (js ''kg'', 0.453592), (js ''g'', 453.592)]),
      (js ''cup'', [(js ''ml'', 236.588), (js ''l'', 0.236588)]),
      (js ''tbsp'', [(js ''tsp'', 3), (js ''ml'', 14.787)]),
      (js ''tsp'', [(js ''tbsp'', 0.333), (js ''ml'', 4.929)])]"

text \<open>
  The loop of \<^verbatim>\<open>normalizeUnit\<close> returns the canonical unit of the first entry whose alias
  list includes the lower-cased, trimmed input, and that input itself when no entry does.
\<close>

definition normalizeUnit :: "jsstring \<Rightarrow> jsstring" where
  "normalizeUnit u =
     (let lower = trim (toLowerCase u) in
      case find (\<lambda>(canonical, aliases). lower \<in> set aliases) UNIT_ALIASES of
        Some (canonical, aliases) \<Rightarrow> canonical
      | None \<Rightarrow> lower)"

subsection \<open>Reading a property\<close>

text \<open>
  The string-keyed properties of \<^verbatim>\<open>Object.prototype\<close> (ECMAScript with its Annex B). Each
  holds a function, except \<^verbatim>\<open>__proto__\<close>, an accessor that gives the prototype of the object
  it is read from.
\<close>

definition objectPrototypeKeys :: "jsstring list" where
  "objectPrototypeKeys =
     [js ''constructor'', js ''__proto__'', js ''hasOwnProperty'', js ''isPrototypeOf'',
      js ''propertyIsEnumerable'', js ''toLocaleString'', js ''toString'', js ''valueOf'',
      js ''__defineGetter__'', js ''__defineSetter__'', js ''__lookupGetter__'',
      js ''__lookupSetter__'']"

text \<open>
  \<^verbatim>\<open>table[k]\<close> for an object literal \<open>table\<close> with numbers as values: the value of its own
  property \<open>k\<close>, else what it inherits from \<^verbatim>\<open>Object.prototype\<close> (a function, or for
  \<^verbatim>\<open>__proto__\<close> the object \<^verbatim>\<open>Object.prototype\<close> itself), else \<^verbatim>\<open>undefined\<close>, which is \<open>None\<close>.
\<close>

definition plainProperty :: "(jsstring \<times> real) list \<Rightarrow> jsstring \<Rightarrow> number option" where
  "plainProperty table k =
     (case map_of table k of
        Some v \<Rightarrow> Some (Fin v)
      | None \<Rightarrow> if k \<in> set objectPrototypeKeys then Some NonNumber else None)"

text \<open>
  \<^verbatim>\<open>Object.prototype[k]\<close>, read when the first key is \<^verbatim>\<open>__proto__\<close>: its own properties, where
  \<^verbatim>\<open>__proto__\<close> gives \<^verbatim>\<open>null\<close>, which is \<open>None\<close> as well.
\<close>

definition objectPrototypeProperty :: "jsstring \<Rightarrow> number option" where
  "objectPrototypeProperty k =
     (if k = js ''__proto__'' then None
      else if k \<in> set objectPrototypeKeys then Some NonNumber
      else None)"

text \<open>
  \<^verbatim>\<open>Object[k]\<close>, read when the first key is \<^verbatim>\<open>constructor\<close>, for a key without upper-case
  letters (the keys are normalized units). The function \<^verbatim>\<open>Object\<close> has \<^verbatim>\<open>length\<close> 1, the
  name \<^verbatim>\<open>"Object"\<close>, its \<^verbatim>\<open>prototype\<close> and its static methods, and it inherits from
  \<^verbatim>\<open>Function.prototype\<close> and \<^verbatim>\<open>Object.prototype\<close> (ECMAScript 2017 and later).

  Reading \<^verbatim>\<open>caller\<close> or \<^verbatim>\<open>arguments\<close> of a built-in function raises a \<^verbatim>\<open>TypeError\<close> instead
  of giving a value. The functions of this model are total and have no value for that:
  the two names get no entry here. The code reaches them only when the two normalized
  units of a line or of a call are \<^verbatim>\<open>constructor\<close> and one of these two names. On such
  input the code raises where the model returns, and a statement below that ranges over
  all inputs says nothing there of the code, which returns no value.
\<close>

definition objectFunctionProperty :: "jsstring \<Rightarrow> number option" where
  "objectFunctionProperty k =
     (if k = js ''length'' then Some (Fin 1)
      else if k \<in> set [js ''name'', js ''prototype'', js ''assign'', js ''create'',
                js ''entries'', js ''freeze'', js ''is'', js ''keys'', js ''seal'',
                js ''values'', js ''apply'', js ''bind'', js ''call'', js ''constructor'',
                js ''__proto__'']
      then Some NonNumber
      else None)"

text \<open>A value used as a condition, or on the left of \<^verbatim>\<open>||\<close>: kept when it is truthy.\<close>

definition truthyValue :: "number option \<Rightarrow> number option" where
  "truthyValue p =
     (case p of
        None \<Rightarrow> None
      | Some NaN \<Rightarrow> None
      | Some (Fin x) \<Rightarrow> if x = 0 then None else Some (Fin x)
      | Some v \<Rightarrow> Some v)"

text \<open>
  \<^verbatim>\<open>STANDARD_CONVERSIONS[a]?.[b]\<close> used as a condition, for normalized units \<open>a\<close> and \<open>b\<close>:
  the value read when it is truthy. The first read gives an inner table, or the function
  \<^verbatim>\<open>Object\<close> for \<^verbatim>\<open>constructor\<close>, or \<^verbatim>\<open>Object.prototype\<close> for \<^verbatim>\<open>__proto__\<close> (the other names of
  \<open>objectPrototypeKeys\<close> have upper-case letters and are no normalized unit), or
  \<^verbatim>\<open>undefined\<close>, where \<^verbatim>\<open>?.\<close> stops.
\<close>

definition standardEntry :: "jsstring \<Rightarrow> jsstring \<Rightarrow> number option" where
  "standardEntry a b =
     truthyValue
       (case map_of STANDARD_CONVERSIONS a of
          Some inner \<Rightarrow> plainProperty inner b
        | None \<Rightarrow>
            if a = js ''constructor'' then objectFunctionProperty b
            else if a = js ''__proto__'' then objectPrototypeProperty b
            else None)"

text \<open>
  \<^verbatim>\<open>getStandardConversionFactor\<close>; \<open>None\<close> is the result \<^verbatim>\<open>null\<close>. What it returns from the
  table need not be a number: an inherited value is returned as it is, or inverted to
  \<open>NaN\<close>.
\<close>

definition getStandardConversionFactor :: "jsstring \<Rightarrow> jsstring \<Rightarrow> number option" where
  "getStandardConversionFactor fromUnit' toUnit' =
     (let normFrom = normalizeUnit fromUnit'; normTo = normalizeUnit toUnit' in
      if normFrom = normTo then Some (Fin 1)
      else
        (case standardEntry normFrom normTo of
           Some f \<Rightarrow> Some f
         | None \<Rightarrow>
             (case standardEntry normTo normFrom of
                Some r \<Rightarrow> Some (num_div (Fin 1) r)
              | None \<Rightarrow> None)))"

section \<open>Quantity parser\<close>

text \<open>\<^verbatim>\<open>fractionMap\<close>: the vulgar fraction glyphs, by code unit, in source order.\<close>

definition fractionMap :: "(jsstring \<times> real) list" where
  "fractionMap =
     [([188], 0.25), ([189], 0.5), ([190], 0.75), ([8531], 0.333), ([8532], 0.667),
      ([8539], 0.125), ([8540], 0.375), ([8541], 0.625), ([8542], 0.875)]"

text \<open>
  \<^verbatim>\<open>fractionMap[k]\<close> used as a condition or on the left of \<^verbatim>\<open>||\<close>: the value read when it
  is truthy. The key is not lower-cased, so every name of \<open>objectPrototypeKeys\<close> finds an
  inherited value.
\<close>

definition fractionEntry :: "jsstring \<Rightarrow> number option" where
  "fractionEntry k = truthyValue (plainProperty fractionMap k)"

text \<open>\<^verbatim>\<open>s.split('/')\<close>, written for any separator.\<close>

fun split :: "nat \<Rightarrow> jsstring \<Rightarrow> jsstring list" where
  "split sep [] = [[]]"
| "split sep (c # cs) =
     (if c = sep then [] # split sep cs
      else (case split sep cs of
              [] \<Rightarrow> [[c]]
            | p # ps \<Rightarrow> (c # p) # ps))"

text \<open>
  The regular expression of the mixed form,
  \<^verbatim>\<open>/^(\d+)\s*([glyph]|(\d+)\/(\d+))$/\<close>, matched the way a backtracking matcher does.

  \<open>matchFractionPart r\<close> matches group 2 against all of \<open>r\<close>: one glyph, or digits, a slash
  and digits (the greedy \<^verbatim>\<open>\d+\<close> of group 3 has one length only that a slash can follow).
  It gives group 2 and, for the second alternative, groups 3 and 4.
\<close>

definition isVulgar :: "nat \<Rightarrow> bool" where
  "isVulgar c = (c \<in> set [188, 189, 190, 8531, 8532, 8539, 8540, 8541, 8542])"

definition matchFractionPart :: "jsstring \<Rightarrow> (jsstring \<times> (jsstring \<times> jsstring) option) option" where
  "matchFractionPart r =
     (if length r = 1 \<and> list_all isVulgar r then Some (r, None)
      else
        let n = takeWhile isDigit r; rest = dropWhile isDigit r in
        (case rest of
           [] \<Rightarrow> None
         | c # d \<Rightarrow>
             if n \<noteq> [] \<and> c = 47 \<and> d \<noteq> [] \<and> list_all isDigit d
             then Some (r, Some (n, d)) else None))"

text \<open>\<^verbatim>\<open>\s*\<close> is greedy: \<open>j\<close> blanks are skipped first, then fewer.\<close>

fun trySpaces :: "nat \<Rightarrow> jsstring \<Rightarrow> (jsstring \<times> (jsstring \<times> jsstring) option) option" where
  "trySpaces 0 r = matchFractionPart r"
| "trySpaces (Suc j) r =
     (case matchFractionPart (drop (Suc j) r) of
        Some m \<Rightarrow> Some m
      | None \<Rightarrow> trySpaces j r)"

text \<open>Group 1 is greedy too: \<open>k\<close> digits are taken first, then fewer, and at least one.\<close>

fun tryWhole ::
  "nat \<Rightarrow> jsstring \<Rightarrow> (jsstring \<times> jsstring \<times> (jsstring \<times> jsstring) option) option" where
  "tryWhole 0 s = None"
| "tryWhole (Suc k) s =
     (case trySpaces (length (takeWhile isWhiteSpace (drop (Suc k) s))) (drop (Suc k) s) of
        Some (m2, m34) \<Rightarrow> Some (take (Suc k) s, m2, m34)
      | None \<Rightarrow> tryWhole k s)"

definition mixedMatch ::
  "jsstring \<Rightarrow> (jsstring \<times> jsstring \<times> (jsstring \<times> jsstring) option) option" where
  "mixedMatch s = tryWhole (length (takeWhile isDigit s)) s"

text \<open>
  The ASCII fraction branch of \<^verbatim>\<open>parseFraction\<close>: the value it returns, or \<open>None\<close> when
  control falls through to the code after it.
\<close>

definition asciiFraction :: "jsstring \<Rightarrow> number option" where
  "asciiFraction trimmed =
     (if 47 \<in> set trimmed then
        (case map (\<lambda>n. parseFloat (trim n)) (split 47 trimmed) of
           numerator # denominator # _ \<Rightarrow>
             if \<not> isNaN numerator \<and> \<not> isNaN denominator \<and> denominator \<noteq> Fin 0
             then Some (num_div numerator denominator) else None
         | _ \<Rightarrow> None)
      else None)"

definition parseFraction :: "jsstring \<Rightarrow> number" where
  "parseFraction str =
     (let trimmed = trim str in
      case fractionEntry trimmed of
        Some v \<Rightarrow> v
      | None \<Rightarrow>
          (case asciiFraction trimmed of
             Some q \<Rightarrow> q
           | None \<Rightarrow>
               (case mixedMatch trimmed of
                  Some (m1, m2, m34) \<Rightarrow>
                    (let whole = parseFloat m1;
                         fractionValue =
                           (case fractionEntry m2 of
                              Some v \<Rightarrow> v
                            | None \<Rightarrow>
                                (case m34 of
                                   Some (m3, m4) \<Rightarrow> num_div (parseFloat m3) (parseFloat m4)
                                 | None \<Rightarrow> Fin 0))
                     in num_add whole fractionValue)
                | None \<Rightarrow>
                    (let num = parseFloat trimmed in
                     if isNaN num then Fin 0 else num))))"

section \<open>Cost engine\<close>

text \<open>
  The types of the module. The fields \<^verbatim>\<open>id\<close>, \<^verbatim>\<open>name\<close> and \<^verbatim>\<open>unit\<close> of the inventory item
  are \<open>item_id\<close>, \<open>item_name\<close> and \<open>item_unit\<close>, the \<^verbatim>\<open>id\<close> of a conversion is
  \<open>conversion_id\<close> and the \<^verbatim>\<open>inventoryItemId\<close> of a warning is \<open>warning_inventoryItemId\<close>;
  an optional field is an \<open>option\<close>.
\<close>

record InventoryItem =
  item_id :: jsstring
  item_name :: jsstring
  unitQuantity :: jsstring
  item_unit :: jsstring
  unitPrice :: jsstring

record RecipeIngredientWithInventory =
  quantity :: jsstring
  unit :: jsstring
  inventoryItem :: InventoryItem

record UnitConversion =
  conversion_id :: jsstring
  inventoryItemId :: jsstring
  fromUnit :: jsstring
  toUnit :: jsstring
  conversionFactor :: jsstring

record UnitMismatchWarning =
  ingredientName :: jsstring
  recipeUnit :: jsstring
  inventoryUnit :: jsstring
  warning_inventoryItemId :: jsstring
  inventoryItemName :: jsstring
  canConvert :: bool
  conversion :: "UnitConversion option"

record CostCalculationResult =
  cost :: number
  hasUnitMismatch :: bool
  usedConversion :: "UnitConversion option"

record IngredientCost =
  ingredient :: RecipeIngredientWithInventory
  result :: CostCalculationResult

record DetailedCost =
  totalCost :: number
  ingredientCosts :: "IngredientCost list"
  mismatches :: "UnitMismatchWarning list"
  linkedCount :: nat
  totalIngredients :: nat

text \<open>
  The predicate both functions pass to \<^verbatim>\<open>customConversions.find\<close>, for the line \<open>ing\<close>
  with normalized recipe unit \<open>ru\<close> and normalized inventory unit \<open>iu\<close>.
\<close>

definition matchesLine ::
  "RecipeIngredientWithInventory \<Rightarrow> jsstring \<Rightarrow> jsstring \<Rightarrow> UnitConversion \<Rightarrow> bool" where
  "matchesLine ing ru iu c =
     (inventoryItemId c = item_id (inventoryItem ing) \<and>
      normalizeUnit (fromUnit c) = ru \<and>
      normalizeUnit (toUnit c) = iu)"

text \<open>
  The loop of \<^verbatim>\<open>detectUnitMismatches\<close>, with the array \<^verbatim>\<open>warnings\<close> as accumulator:
  \<^verbatim>\<open>continue\<close> goes on with the array as it is, \<^verbatim>\<open>push\<close> appends to it.
\<close>

fun detectLoop ::
  "RecipeIngredientWithInventory list \<Rightarrow> UnitConversion list \<Rightarrow> UnitMismatchWarning list
   \<Rightarrow> UnitMismatchWarning list" where
  "detectLoop [] customConversions warnings = warnings"
| "detectLoop (ing # rest) customConversions warnings =
     (let ru = normalizeUnit (unit ing);
          iu = normalizeUnit (item_unit (inventoryItem ing)) in
      if ru = iu then detectLoop rest customConversions warnings
      else
        (case getStandardConversionFactor ru iu of
           Some standardConversion \<Rightarrow> detectLoop rest customConversions warnings
         | None \<Rightarrow>
             (case find (matchesLine ing ru iu) customConversions of
                Some customConversion \<Rightarrow>
                  detectLoop rest customConversions
                    (warnings @
                     [\<lparr>ingredientName = item_name (inventoryItem ing),
                       recipeUnit = unit ing,
                       inventoryUnit = item_unit (inventoryItem ing),
                       warning_inventoryItemId = item_id (inventoryItem ing),
                       inventoryItemName = item_name (inventoryItem ing),
                       canConvert = True,
                       conversion = Some customConversion\<rparr>])
              | None \<Rightarrow>
                  detectLoop rest customConversions
                    (warnings @
                     [\<lparr>ingredientName = item_name (inventoryItem ing),
                       recipeUnit = unit ing,
                       inventoryUnit = item_unit (inventoryItem ing),
                       warning_inventoryItemId = item_id (inventoryItem ing),
                       inventoryItemName = item_name (inventoryItem ing),
                       canConvert = False,
                       conversion = None\<rparr>]))))"

definition detectUnitMismatches ::
  "RecipeIngredientWithInventory list \<Rightarrow> UnitConversion list \<Rightarrow> UnitMismatchWarning list" where
  "detectUnitMismatches ingredients customConversions =
     detectLoop ingredients customConversions []"

text \<open>
  The three mutable locals \<^verbatim>\<open>conversionFactor\<close>, \<^verbatim>\<open>hasUnitMismatch\<close> and
  \<^verbatim>\<open>usedConversion\<close> of \<^verbatim>\<open>calculateIngredientCostWithConversion\<close> after the unit
  resolution, starting from \<^verbatim>\<open>1\<close>, \<^verbatim>\<open>false\<close> and \<^verbatim>\<open>undefined\<close>.
\<close>

definition resolveUnits ::
  "RecipeIngredientWithInventory \<Rightarrow> UnitConversion list
   \<Rightarrow> number \<times> bool \<times> UnitConversion option" where
  "resolveUnits ing customConversions =
     (let ru = normalizeUnit (unit ing);
          iu = normalizeUnit (item_unit (inventoryItem ing)) in
      if ru \<noteq> iu then
        (case getStandardConversionFactor ru iu of
           Some standardConversion \<Rightarrow> (standardConversion, False, None)
         | None \<Rightarrow>
             (case find (matchesLine ing ru iu) customConversions of
                Some customConversion \<Rightarrow>
                  (parseFloat (conversionFactor customConversion), False, Some customConversion)
              | None \<Rightarrow> (Fin 1, True, None)))
      else (Fin 1, False, None))"

definition calculateIngredientCostWithConversion ::
  "RecipeIngredientWithInventory \<Rightarrow> UnitConversion list \<Rightarrow> CostCalculationResult" where
  "calculateIngredientCostWithConversion ing customConversions =
     (let recipeQuantity = parseFraction (quantity ing);
          inventoryQuantity = parseFraction (unitQuantity (inventoryItem ing));
          inventoryPrice = parseFloat (unitPrice (inventoryItem ing)) in
      if recipeQuantity = Fin 0 \<or> inventoryQuantity = Fin 0 \<or> isNaN inventoryPrice then
        \<lparr>cost = Fin 0, hasUnitMismatch = False, usedConversion = None\<rparr>
      else
        (case resolveUnits ing customConversions of
           (factor, mismatch, used) \<Rightarrow>
             (let convertedQuantity = num_mul recipeQuantity factor;
                  costPerUnit = num_div inventoryPrice inventoryQuantity;
                  total = num_mul costPerUnit convertedQuantity in
              \<lparr>cost = (if mismatch then Fin 0 else total),
                hasUnitMismatch = mismatch,
                usedConversion = used\<rparr>)))"

text \<open>The legacy entry point.\<close>

definition calculateIngredientCost :: "RecipeIngredientWithInventory \<Rightarrow> number" where
  "calculateIngredientCost ing =
     (let r = calculateIngredientCostWithConversion ing [] in cost r)"



text \<open>\<^verbatim>\<open>map\<close>, then \<^verbatim>\<open>reduce\<close> from 0, then the scan filtered by \<^verbatim>\<open>!m.canConvert\<close>.\<close>

definition calculateRecipeCostDetailed ::
  "RecipeIngredientWithInventory list \<Rightarrow> UnitConversion list \<Rightarrow> DetailedCost" where
  "calculateRecipeCostDetailed ingredients customConversions =
     (let costs =
            map (\<lambda>ing. \<lparr>ingredient = ing,
                         result = calculateIngredientCostWithConversion ing customConversions\<rparr>)
              ingredients;
          total = foldl (\<lambda>acc ic. num_add acc (cost (result ic))) (Fin 0) costs;
          warnings = detectUnitMismatches ingredients customConversions in
      \<lparr>totalCost = total,
        ingredientCosts = costs,
        mismatches = filter (\<lambda>m. \<not> canConvert m) warnings,
        linkedCount = length ingredients,
        totalIngredients = length ingredients\<rparr>)"

section \<open>Specification-level notions\<close>




text \<open>
  The warning a line gets from the mismatch scan, with its \<^verbatim>\<open>canConvert\<close> flag and the
  attached conversion.
\<close>

definition warningFor ::
  "RecipeIngredientWithInventory \<Rightarrow> bool \<Rightarrow> UnitConversion option \<Rightarrow> UnitMismatchWarning" where
  "warningFor ing can conv =
     \<lparr>ingredientName = item_name (inventoryItem ing),
      recipeUnit = unit ing,
      inventoryUnit = item_unit (inventoryItem ing),
      warning_inventoryItemId = item_id (inventoryItem ing),
      inventoryItemName = item_name (inventoryItem ing),
      canConvert = can,
      conversion = conv\<rparr>"

text \<open>
  A custom conversion authored for a line: its item is the line's item and its normalized
  units are the line's normalized recipe unit and inventory unit, in that order.
\<close>

definition authoredFor :: "RecipeIngredientWithInventory \<Rightarrow> UnitConversion \<Rightarrow> bool" where
  "authoredFor ing c =
     (inventoryItemId c = item_id (inventoryItem ing) \<and>
      normalizeUnit (fromUnit c) = normalizeUnit (unit ing) \<and>
      normalizeUnit (toUnit c) = normalizeUnit (item_unit (inventoryItem ing)))"

text \<open>
  The entries of \<^verbatim>\<open>STANDARD_CONVERSIONS\<close> as triples: from, to, factor; and the pairs of
  units that have an entry.
\<close>

definition standardPairs :: "(jsstring \<times> jsstring \<times> real) list" where
  "standardPairs =
     concat (map (\<lambda>(a, inner). map (\<lambda>(b, f). (a, b, f)) inner) STANDARD_CONVERSIONS)"

definition tablePairs :: "(jsstring \<times> jsstring) list" where
  "tablePairs = map (\<lambda>(a, b, f). (a, b)) standardPairs"

text \<open>
  The pairs of units for which the table has an entry in each direction and the two
  entries are not reciprocal.
\<close>

definition inexactPairs :: "(jsstring \<times> jsstring) list" where
  "inexactPairs =
     [(js ''g'', js ''oz''), (js ''oz'', js ''g''),
      (js ''kg'', js ''lb''), (js ''lb'', js ''kg''),
      (js ''ml'', js ''cup''), (js ''cup'', js ''ml''),
      (js ''l'', js ''cup''), (js ''cup'', js ''l''),
      (js ''tbsp'', js ''tsp''), (js ''tsp'', js ''tbsp'')]"

section \<open>Sample data\<close>

text \<open>
  Three inventory items: flour bought as 1000 g for 12.00, ham bought as 1 unit for 5.00,
  and eggs bought as 12 for 6.00 with the unit text \<^verbatim>\<open>constructor\<close>.
\<close>

definition flour :: InventoryItem where
  "flour = \<lparr>item_id = js ''inv-1'', item_name = js ''Flour'', unitQuantity = js ''1000'',
     item_unit = js ''g'', unitPrice = js ''12.00''\<rparr>"

definition ham :: InventoryItem where
  "ham = \<lparr>item_id = js ''inv-2'', item_name = js ''Ham'', unitQuantity = js ''1'',
     item_unit = js ''unit'', unitPrice = js ''5.00''\<rparr>"

definition eggs :: InventoryItem where
  "eggs = \<lparr>item_id = js ''inv-3'', item_name = js ''Eggs'', unitQuantity = js ''12'',
     item_unit = js ''constructor'', unitPrice = js ''6.00''\<rparr>"

text \<open>
  Recipe lines in grams on them: 200 g of each, and lines on which the quantity is
  \<^verbatim>\<open>"abc"\<close> and \<^verbatim>\<open>"-5"\<close>.
\<close>

definition flourLine :: RecipeIngredientWithInventory where
  "flourLine = \<lparr>quantity = js ''200'', unit = js ''g'', inventoryItem = flour\<rparr>"

definition hamLine :: RecipeIngredientWithInventory where
  "hamLine = \<lparr>quantity = js ''200'', unit = js ''g'', inventoryItem = ham\<rparr>"

definition constructorLine :: RecipeIngredientWithInventory where
  "constructorLine = \<lparr>quantity = js ''200'', unit = js ''g'', inventoryItem = eggs\<rparr>"

definition noQuantityLine :: RecipeIngredientWithInventory where
  "noQuantityLine = \<lparr>quantity = js ''abc'', unit = js ''g'', inventoryItem = ham\<rparr>"


text \<open>
  Custom conversions from grams: for the ham with factor 0.01 and with a negative factor,
  for the eggs with factor 0.5.
\<close>

definition hamConversion :: UnitConversion where
  "hamConversion = \<lparr>conversion_id = js ''c-1'', inventoryItemId = js ''inv-2'',
     fromUnit = js ''g'', toUnit = js ''unit'', conversionFactor = js ''0.01''\<rparr>"


definition constructorConversion :: UnitConversion where
  "constructorConversion = \<lparr>conversion_id = js ''c-4'', inventoryItemId = js ''inv-3'',
     fromUnit = js ''g'', toUnit = js ''constructor'', conversionFactor = js ''0.5''\<rparr>"

section \<open>Properties of the string operations\<close>

lemma isWhiteSpace_lower [simp]: "isWhiteSpace (toLowerCaseUnit c) = isWhiteSpace c"
  by (auto simp: isWhiteSpace_def toLowerCaseUnit_def)

lemma toLowerCaseUnit_idem [simp]: "toLowerCaseUnit (toLowerCaseUnit c) = toLowerCaseUnit c"
  by (simp add: toLowerCaseUnit_def)

lemma toLowerCase_idem: "toLowerCase (toLowerCase s) = toLowerCase s"
  by (simp add: toLowerCase_def)

lemma toLowerCase_trim: "toLowerCase (trim s) = trim (toLowerCase s)"
  by (simp add: toLowerCase_def trim_def rev_map dropWhile_map comp_def)

lemma dropWhile_rev_dropWhile:
  "dropWhile P (rev (dropWhile P (rev xs))) = rev (dropWhile P (rev (dropWhile P xs)))"
proof (induction xs)
  case Nil
  then show ?case by simp
next
  case (Cons x xs)
  show ?case
  proof (cases "P x")
    case True
    note px = this
    show ?thesis
    proof (cases "\<forall>y\<in>set xs. P y")
      case True
      with px show ?thesis by (auto simp: dropWhile_append dest: set_dropWhileD)
    next
      case False
      with px Cons show ?thesis by (auto simp add: dropWhile_append)
    qed
  next
    case False
    then show ?thesis by (auto simp: dropWhile_append)
  qed
qed

lemma trim_idem: "trim (trim s) = trim s"
proof -
  have "dropWhile isWhiteSpace (trim s) = trim s"
    unfolding trim_def
    by (simp add: dropWhile_rev_dropWhile dropWhile_idem)
  then show ?thesis
    by (simp add: trim_def[of "trim s"] , simp add: trim_def dropWhile_idem)
qed

section \<open>Properties of the unit resolver\<close>

lemmas string_eval = js_def trim_def toLowerCase_def toLowerCaseUnit_def isWhiteSpace_def

lemma find_Some_set: "find P xs = Some x \<Longrightarrow> x \<in> set xs \<and> P x"
  by (induction xs) (auto split: if_splits)

lemma canonical_fixed:
  "\<forall>e \<in> set UNIT_ALIASES. normalizeUnit (fst e) = fst e"
  by (simp add: UNIT_ALIASES_def normalizeUnit_def string_eval)

lemma lowered_fixed: "trim (toLowerCase (trim (toLowerCase x))) = trim (toLowerCase x)"
  by (simp add: toLowerCase_trim toLowerCase_idem trim_idem)

text \<open>
  C9. \<^verbatim>\<open>normalizeUnit\<close> is idempotent: normalizing a normalized unit changes nothing,
  for every input string.
\<close>

theorem normalizeUnit_idempotent:
  "normalizeUnit (normalizeUnit x) = normalizeUnit x"
proof -
  define lower where "lower = trim (toLowerCase x)"
  have fixed: "trim (toLowerCase lower) = lower"
    by (simp add: lower_def lowered_fixed)
  show ?thesis
  proof (cases "find (\<lambda>(canonical, aliases). lower \<in> set aliases) UNIT_ALIASES")
    case None
    then have "normalizeUnit x = lower"
      by (simp add: normalizeUnit_def lower_def)
    moreover from None fixed have "normalizeUnit lower = lower"
      by (simp add: normalizeUnit_def)
    ultimately show ?thesis by simp
  next
    case (Some e)
    then have "e \<in> set UNIT_ALIASES"
      by (simp add: find_Some_set)
    moreover from Some have "normalizeUnit x = fst e"
      by (simp add: normalizeUnit_def lower_def split: prod.splits)
    ultimately show ?thesis
      using canonical_fixed by simp
  qed
qed

theorem normalizeUnit_idempotent_witness:
  "normalizeUnit (normalizeUnit (js '' Grams '')) = js ''g''"
proof -
  have "normalizeUnit (js '' Grams '') = js ''g''"
    by (simp add: UNIT_ALIASES_def normalizeUnit_def string_eval)
  with normalizeUnit_idempotent [of "js '' Grams ''"] show ?thesis by simp
qed

section \<open>Evaluation of the sample data\<close>

lemmas property_eval = plainProperty_def objectPrototypeKeys_def objectPrototypeProperty_def
  objectFunctionProperty_def truthyValue_def

lemmas number_eval = parseFraction_def asciiFraction_def mixedMatch_def matchFractionPart_def
  fractionEntry_def fractionMap_def isVulgar_def parseFloat_def parseUnsigned_def isDigit_def
  digitsValue_def scale10_def exponentPart_def isNaN_def signed_infinity_def Let_def
  property_eval

lemmas unit_eval = normalizeUnit_def UNIT_ALIASES_def getStandardConversionFactor_def
  standardEntry_def STANDARD_CONVERSIONS_def property_eval

lemmas cost_eval = calculateIngredientCostWithConversion_def resolveUnits_def matchesLine_def

lemma flourLine_cost:
  "calculateIngredientCostWithConversion flourLine [] =
     \<lparr>cost = Fin 2.4, hasUnitMismatch = False, usedConversion = None\<rparr>"
  by (simp add: flourLine_def flour_def cost_eval unit_eval number_eval string_eval)

lemma hamLine_cost:
  "calculateIngredientCostWithConversion hamLine [] =
     \<lparr>cost = Fin 0, hasUnitMismatch = True, usedConversion = None\<rparr>"
  by (simp add: hamLine_def ham_def cost_eval unit_eval number_eval string_eval)

lemma hamLine_cost_custom:
  "calculateIngredientCostWithConversion hamLine [hamConversion] =
     \<lparr>cost = Fin 10, hasUnitMismatch = False, usedConversion = Some hamConversion\<rparr>"
  by (simp add: hamLine_def ham_def hamConversion_def cost_eval unit_eval number_eval
      string_eval)

lemma ham_units:
  "normalizeUnit (unit hamLine) = js ''g''"
  "normalizeUnit (item_unit (inventoryItem hamLine)) = js ''unit''"
  "getStandardConversionFactor (js ''g'') (js ''unit'') = None"
  "js ''g'' \<noteq> js ''unit''"
  by (simp_all add: hamLine_def ham_def unit_eval string_eval)

lemma ham_authored: "authoredFor hamLine hamConversion"
  by (simp add: authoredFor_def hamLine_def ham_def hamConversion_def unit_eval string_eval)



section \<open>Properties of the cost engine\<close>

text \<open>
  C10. The legacy entry point \<^verbatim>\<open>calculateIngredientCost\<close> returns the cost that
  \<^verbatim>\<open>calculateIngredientCostWithConversion\<close> computes with an empty list of custom
  conversions.
\<close>

theorem calculateIngredientCost_legacy:
  "calculateIngredientCost ing = cost (calculateIngredientCostWithConversion ing [])"
  by (simp add: calculateIngredientCost_def)

theorem calculateIngredientCost_legacy_witness:
  "calculateIngredientCost flourLine = Fin 2.4"
  using calculateIngredientCost_legacy [of flourLine] by (simp add: flourLine_cost)

text \<open>
  C7. Whenever \<^verbatim>\<open>calculateIngredientCostWithConversion\<close> reports a unit mismatch, the
  cost it returns is exactly 0, whatever the quantities and the price are.
\<close>

theorem mismatch_costs_nothing:
  assumes "hasUnitMismatch (calculateIngredientCostWithConversion ing customConversions)"
  shows "cost (calculateIngredientCostWithConversion ing customConversions) = Fin 0"
proof (cases "parseFraction (quantity ing) = Fin 0 \<or>
    parseFraction (unitQuantity (inventoryItem ing)) = Fin 0 \<or>
    isNaN (parseFloat (unitPrice (inventoryItem ing)))")
  case True
  then show ?thesis
    by (simp add: calculateIngredientCostWithConversion_def)
next
  case False
  obtain factor mismatch used where
    r: "resolveUnits ing customConversions = (factor, mismatch, used)"
    by (cases "resolveUnits ing customConversions") auto
  from False r assms have mismatch
    by (simp add: calculateIngredientCostWithConversion_def Let_def)
  with False r show ?thesis
    by (simp add: calculateIngredientCostWithConversion_def Let_def)
qed

theorem mismatch_costs_nothing_witness:
  "hasUnitMismatch (calculateIngredientCostWithConversion hamLine []) \<and>
   cost (calculateIngredientCostWithConversion hamLine []) = Fin 0"
proof -
  have h: "hasUnitMismatch (calculateIngredientCostWithConversion hamLine [])"
    by (simp add: hamLine_cost)
  from h mismatch_costs_nothing [OF h] show ?thesis by simp
qed

text \<open>
  C6. A line whose recipe quantity parses to 0, whose purchase quantity parses to 0 or
  whose price does not parse as a number costs 0 and is not flagged as a unit mismatch,
  whatever its units and the custom conversions are.
\<close>

theorem incomplete_line_costs_nothing:
  assumes "parseFraction (quantity ing) = Fin 0 \<or>
    parseFraction (unitQuantity (inventoryItem ing)) = Fin 0 \<or>
    isNaN (parseFloat (unitPrice (inventoryItem ing)))"
  shows "cost (calculateIngredientCostWithConversion ing customConversions) = Fin 0 \<and>
    \<not> hasUnitMismatch (calculateIngredientCostWithConversion ing customConversions)"
  using assms by (simp add: calculateIngredientCostWithConversion_def)

theorem incomplete_line_costs_nothing_witness:
  "parseFraction (quantity noQuantityLine) = Fin 0 \<and>
   cost (calculateIngredientCostWithConversion noQuantityLine []) = Fin 0 \<and>
   \<not> hasUnitMismatch (calculateIngredientCostWithConversion noQuantityLine [])"
proof -
  have h: "parseFraction (quantity noQuantityLine) = Fin 0"
    by (simp add: noQuantityLine_def number_eval string_eval)
  then have "parseFraction (quantity noQuantityLine) = Fin 0 \<or>
    parseFraction (unitQuantity (inventoryItem noQuantityLine)) = Fin 0 \<or>
    isNaN (parseFloat (unitPrice (inventoryItem noQuantityLine)))"
    by simp
  from h incomplete_line_costs_nothing [OF this, of "[]"] show ?thesis by simp
qed







section \<open>The unit \<^verbatim>\<open>constructor\<close>: an inherited property taken for a table entry\<close>

lemma constructor_units:
  "normalizeUnit (unit constructorLine) = js ''g''"
  "normalizeUnit (item_unit (inventoryItem constructorLine)) = js ''constructor''"
  "js ''g'' \<noteq> js ''constructor''"
  "(js ''g'', js ''constructor'') \<notin> set tablePairs"
  "(js ''constructor'', js ''g'') \<notin> set tablePairs"
  by (simp_all add: constructorLine_def eggs_def tablePairs_def standardPairs_def unit_eval
      string_eval)

lemma constructor_factor:
  "getStandardConversionFactor (js ''g'') (js ''constructor'') = Some NonNumber"
  "getStandardConversionFactor (js ''constructor'') (js ''g'') = Some NaN"
  by (simp_all add: unit_eval string_eval)

lemma constructor_parsed:
  "parseFraction (quantity constructorLine) = Fin 200"
  "parseFraction (unitQuantity (inventoryItem constructorLine)) = Fin 12"
  "parseFloat (unitPrice (inventoryItem constructorLine)) = Fin 6"
  by (simp_all add: constructorLine_def eggs_def number_eval string_eval)

lemma constructor_authored: "authoredFor constructorLine constructorConversion"
  by (simp add: authoredFor_def constructorLine_def eggs_def constructorConversion_def
      unit_eval string_eval)

lemma constructor_cost:
  "calculateIngredientCostWithConversion constructorLine customConversions =
     \<lparr>cost = NaN, hasUnitMismatch = False, usedConversion = None\<rparr>"
  by (simp add: calculateIngredientCostWithConversion_def resolveUnits_def constructor_units
      constructor_factor constructor_parsed isNaN_def)

text \<open>
  C5. The claim does not hold of the code for a line in grams whose inventory unit is the
  text \<^verbatim>\<open>constructor\<close>. The normalized units differ and the table has no entry between
  them in either direction, and there is no custom conversion: nothing resolves the line.
  Yet \<^verbatim>\<open>STANDARD_CONVERSIONS['g']['constructor']\<close> is the function inherited from
  \<^verbatim>\<open>Object.prototype\<close>, \<^verbatim>\<open>getStandardConversionFactor\<close> returns it, and the scan takes it for
  a standard conversion: \<^verbatim>\<open>detectUnitMismatches\<close> emits no warning and the
  \<^verbatim>\<open>mismatches\<close> of \<^verbatim>\<open>calculateRecipeCostDetailed\<close> are empty, where the claim has a warning
  with \<^verbatim>\<open>canConvert = false\<close>. The line in grams on the ham, which nothing resolves either,
  gets that warning.
\<close>

theorem constructor_line_not_warned:
  "normalizeUnit (unit constructorLine) \<noteq>
     normalizeUnit (item_unit (inventoryItem constructorLine)) \<and>
   (normalizeUnit (unit constructorLine),
    normalizeUnit (item_unit (inventoryItem constructorLine))) \<notin> set tablePairs \<and>
   (normalizeUnit (item_unit (inventoryItem constructorLine)),
    normalizeUnit (unit constructorLine)) \<notin> set tablePairs \<and>
   detectUnitMismatches [constructorLine] [] = [] \<and>
   mismatches (calculateRecipeCostDetailed [constructorLine] []) = [] \<and>
   detectUnitMismatches [hamLine] [] = [warningFor hamLine False None] \<and>
   mismatches (calculateRecipeCostDetailed [hamLine] []) = [warningFor hamLine False None]"
proof -
  have c: "detectUnitMismatches [constructorLine] [] = []"
    by (simp add: detectUnitMismatches_def constructor_units constructor_factor)
  have h: "detectUnitMismatches [hamLine] [] = [warningFor hamLine False None]"
    by (simp add: detectUnitMismatches_def warningFor_def ham_units)
  have "\<not> canConvert (warningFor hamLine False None)"
    by (simp add: warningFor_def)
  with c h show ?thesis
    by (simp add: calculateRecipeCostDetailed_def Let_def constructor_units)
qed

text \<open>
  C4. The claim does not hold of the code for the line in grams whose inventory unit is
  the text \<^verbatim>\<open>constructor\<close>. Its quantities and price parse to 200, 12 and 6, its normalized
  units differ, the table has no entry between them in either direction, and the
  conversion from grams to \<^verbatim>\<open>constructor\<close> is authored for it: the claim has this
  conversion applied and recorded. The code takes the function inherited from
  \<^verbatim>\<open>Object.prototype\<close> for a standard factor, never looks the custom conversions up,
  multiplies by the function and returns the cost \<open>NaN\<close> with no \<^verbatim>\<open>usedConversion\<close>. On the
  ham, whose unit is no inherited property name, the authored conversion is applied and
  recorded.
\<close>

theorem constructor_conversion_ignored:
  "parseFraction (quantity constructorLine) = Fin 200 \<and>
   parseFraction (unitQuantity (inventoryItem constructorLine)) = Fin 12 \<and>
   parseFloat (unitPrice (inventoryItem constructorLine)) = Fin 6 \<and>
   normalizeUnit (unit constructorLine) \<noteq>
     normalizeUnit (item_unit (inventoryItem constructorLine)) \<and>
   (normalizeUnit (unit constructorLine),
    normalizeUnit (item_unit (inventoryItem constructorLine))) \<notin> set tablePairs \<and>
   (normalizeUnit (item_unit (inventoryItem constructorLine)),
    normalizeUnit (unit constructorLine)) \<notin> set tablePairs \<and>
   authoredFor constructorLine constructorConversion \<and>
   calculateIngredientCostWithConversion constructorLine [constructorConversion] =
     \<lparr>cost = NaN, hasUnitMismatch = False, usedConversion = None\<rparr> \<and>
   authoredFor hamLine hamConversion \<and>
   calculateIngredientCostWithConversion hamLine [hamConversion] =
     \<lparr>cost = Fin 10, hasUnitMismatch = False, usedConversion = Some hamConversion\<rparr>"
  by (simp add: constructor_parsed constructor_units constructor_authored constructor_cost
      ham_authored hamLine_cost_custom)

section \<open>Properties of the standard conversion table\<close>

lemma standardPairs_positive: "\<forall>(a, b, f) \<in> set standardPairs. 0 < f"
  by (simp add: standardPairs_def STANDARD_CONVERSIONS_def)

lemma inexactPairs_distinct: "\<forall>(a, b) \<in> set inexactPairs. a \<noteq> b"
  by (simp add: inexactPairs_def js_def)

text \<open>
  Row by row: an entry of the table is what \<open>standardEntry\<close> reads for its pair of units,
  and what it reads for the reversed pair is nothing, or a number that is the reciprocal
  exactly when the pair is not one of \<open>inexactPairs\<close>.
\<close>

lemma table_rows:
  "\<forall>(a, b, f) \<in> set standardPairs.
     standardEntry a b = Some (Fin f) \<and>
     (case standardEntry b a of
        None \<Rightarrow> (a, b) \<notin> set inexactPairs \<and> (b, a) \<notin> set inexactPairs
      | Some v \<Rightarrow>
          (Fin f = num_div (Fin 1) v) = ((a, b) \<notin> set inexactPairs) \<and>
          (v = num_div (Fin 1) (Fin f)) = ((b, a) \<notin> set inexactPairs))"
  by (simp add: standardPairs_def standardEntry_def STANDARD_CONVERSIONS_def inexactPairs_def
      property_eval js_def)

lemma tablePairs_entry:
  assumes "(a, b) \<in> set tablePairs"
  obtains f where "(a, b, f) \<in> set standardPairs"
  using assms by (auto simp: tablePairs_def)

text \<open>
  C1, as amended. The claim fails for grams and ounces: the table holds 0.03527 for g to oz
  and 28.3495 for oz to g, each call returns its own entry, and the two are not reciprocal
  (see the counterexample after the theorem). The table is written that way: its factors
  are rounded one by one.

  For all unit strings \<open>a\<close> and \<open>b\<close> whose normalized units are equal or have an entry of
  the table between them in at least one direction, and for which both calls give a
  factor, the two factors are exact reciprocals unless the normalized units are one of
  the pairs g/oz, kg/lb, ml/cup, l/cup and tbsp/tsp, in either order; for these pairs they
  are not. Factors that do not come from the table but from a property inherited from
  \<^verbatim>\<open>Object.prototype\<close> (a unit such as \<^verbatim>\<open>constructor\<close>) are left out of the statement. The
  values compared are the table's constants and their reciprocals; the comparisons come
  out the same in binary64.
\<close>

theorem standard_factors_reciprocal:
  assumes "getStandardConversionFactor a b = Some x"
    and "getStandardConversionFactor b a = Some y"
    and "normalizeUnit a = normalizeUnit b \<or>
         (normalizeUnit a, normalizeUnit b) \<in> set tablePairs \<or>
         (normalizeUnit b, normalizeUnit a) \<in> set tablePairs"
  shows "(x = num_div (Fin 1) y) = ((normalizeUnit a, normalizeUnit b) \<notin> set inexactPairs)"
proof (cases "normalizeUnit a = normalizeUnit b")
  case True
  with assms have "x = Fin 1" "y = Fin 1"
    by (auto simp: getStandardConversionFactor_def)
  moreover from True inexactPairs_distinct
  have "(normalizeUnit a, normalizeUnit b) \<notin> set inexactPairs"
    by fastforce
  ultimately show ?thesis by simp
next
  case False
  note differ = this
  with assms(3) consider
    (direct) "(normalizeUnit a, normalizeUnit b) \<in> set tablePairs"
    | (reverse) "(normalizeUnit b, normalizeUnit a) \<in> set tablePairs"
    by blast
  then show ?thesis
  proof cases
    case direct
    then obtain f where "(normalizeUnit a, normalizeUnit b, f) \<in> set standardPairs"
      by (rule tablePairs_entry)
    with table_rows standardPairs_positive have
      ab: "standardEntry (normalizeUnit a) (normalizeUnit b) = Some (Fin f)"
      and ba: "case standardEntry (normalizeUnit b) (normalizeUnit a) of
          None \<Rightarrow> (normalizeUnit a, normalizeUnit b) \<notin> set inexactPairs
        | Some v \<Rightarrow> (Fin f = num_div (Fin 1) v) =
            ((normalizeUnit a, normalizeUnit b) \<notin> set inexactPairs)"
      and f: "0 < f"
      by (fastforce split: option.splits)+
    from ab differ assms(1) have x: "x = Fin f"
      by (auto simp: getStandardConversionFactor_def)
    show ?thesis
    proof (cases "standardEntry (normalizeUnit b) (normalizeUnit a)")
      case None
      with ab differ assms(2) have "y = num_div (Fin 1) (Fin f)"
        by (auto simp: getStandardConversionFactor_def)
      with x f None ba show ?thesis by simp
    next
      case (Some v)
      with differ assms(2) have "y = v"
        by (auto simp: getStandardConversionFactor_def)
      with x Some ba show ?thesis by simp
    qed
  next
    case reverse
    then obtain g where "(normalizeUnit b, normalizeUnit a, g) \<in> set standardPairs"
      by (rule tablePairs_entry)
    with table_rows standardPairs_positive have
      ba: "standardEntry (normalizeUnit b) (normalizeUnit a) = Some (Fin g)"
      and ab: "case standardEntry (normalizeUnit a) (normalizeUnit b) of
          None \<Rightarrow> (normalizeUnit a, normalizeUnit b) \<notin> set inexactPairs
        | Some v \<Rightarrow> (v = num_div (Fin 1) (Fin g)) =
            ((normalizeUnit a, normalizeUnit b) \<notin> set inexactPairs)"
      and g: "0 < g"
      by (fastforce split: option.splits)+
    from ba differ assms(2) have y: "y = Fin g"
      by (auto simp: getStandardConversionFactor_def)
    show ?thesis
    proof (cases "standardEntry (normalizeUnit a) (normalizeUnit b)")
      case None
      with ba differ assms(1) have "x = num_div (Fin 1) (Fin g)"
        by (auto simp: getStandardConversionFactor_def)
      with y None ab show ?thesis by simp
    next
      case (Some v)
      with differ assms(1) have "x = v"
        by (auto simp: getStandardConversionFactor_def)
      with y Some ab show ?thesis by simp
    qed
  qed
qed

lemma pound_gram_factors:
  "getStandardConversionFactor (js ''lb'') (js ''g'') = Some (Fin 453.592)"
  "getStandardConversionFactor (js ''g'') (js ''lb'') = Some (Fin (1 / 453.592))"
  "normalizeUnit (js ''lb'') = js ''lb''" "normalizeUnit (js ''g'') = js ''g''"
  "(js ''lb'', js ''g'') \<notin> set inexactPairs"
  "(js ''lb'', js ''g'') \<in> set tablePairs"
  by (simp_all add: unit_eval string_eval inexactPairs_def tablePairs_def standardPairs_def)

theorem standard_factors_reciprocal_witness:
  "getStandardConversionFactor (js ''lb'') (js ''g'') = Some (Fin 453.592) \<and>
   getStandardConversionFactor (js ''g'') (js ''lb'') = Some (Fin (1 / 453.592)) \<and>
   (js ''lb'', js ''g'') \<in> set tablePairs \<and>
   Fin 453.592 = num_div (Fin 1) (Fin (1 / 453.592))"
proof -
  have "normalizeUnit (js ''lb'') = normalizeUnit (js ''g'') \<or>
      (normalizeUnit (js ''lb''), normalizeUnit (js ''g'')) \<in> set tablePairs \<or>
      (normalizeUnit (js ''g''), normalizeUnit (js ''lb'')) \<in> set tablePairs"
    by (simp add: pound_gram_factors)
  from standard_factors_reciprocal [OF pound_gram_factors(1) pound_gram_factors(2) this]
  show ?thesis
    by (simp add: pound_gram_factors)
qed

theorem standard_factors_counterexample:
  "getStandardConversionFactor (js ''g'') (js ''oz'') = Some (Fin 0.03527) \<and>
   getStandardConversionFactor (js ''oz'') (js ''g'') = Some (Fin 28.3495) \<and>
   Fin 0.03527 \<noteq> num_div (Fin 1) (Fin 28.3495)"
  by (simp add: unit_eval string_eval)

section \<open>Values of the quantity parser\<close>

text \<open>
  C2. \<^verbatim>\<open>parseFraction\<close> gives 0.5 for the glyph one half (code unit 189), 1.5 for the digit
  1, a blank and that glyph, 0.25 for \<^verbatim>\<open>"1/4"\<close> and 0 for \<^verbatim>\<open>"abc"\<close>. For \<^verbatim>\<open>"3/0"\<close> the
  guard on the denominator is taken, the mixed form does not match, and the final
  \<^verbatim>\<open>parseFloat\<close> reads the leading \<^verbatim>\<open>3\<close>: the result is 3, not 0.
\<close>

theorem parseFraction_values:
  "parseFraction [189] = Fin 0.5 \<and>
   parseFraction [49, 32, 189] = Fin 1.5 \<and>
   parseFraction (js ''1/4'') = Fin 0.25 \<and>
   parseFraction (js ''abc'') = Fin 0 \<and>
   parseFraction (js ''3/0'') = Fin 3"
  by (simp add: number_eval string_eval)

section \<open>Sign of the cost\<close>













end
